theory Spec2Isabelle
  imports Complex_Main "HOL-Library.Char_ord" "HOL-Library.List_Lexorder"
begin

section \<open>The pure market making worker (worker.py, v 1.0.0)\<close>

text \<open>
  The worker is a Python class. Its methods are embedded as HOL functions: the fields of
  \<^verbatim>\<open>self\<close> that a method reads or writes are passed in and returned, every gateway
  call is a value handed to the function (the response, or the exception it raised), and
  every \<^verbatim>\<open>raise\<close> is an \<open>Inl\<close> result.
\<close>

subsection \<open>Exceptions\<close>

datatype error =
    ZeroDivisionError
  | DivisionByZero
  | InvalidOperation
  | AttributeError
  | GatewayError
  | InvalidPrice

subsection \<open>The waiting time (\<^verbatim>\<open>_calculate_waiting_time\<close>)\<close>

text \<open>
  \<^verbatim>\<open>result = number - (current_timestamp_in_milliseconds % number)\<close> on Python integers.
  The clock reading is an argument. Python's \<^verbatim>\<open>%\<close> takes the sign of the divisor, as
  \<open>mod\<close> on \<open>int\<close> does, and raises for a zero divisor.
\<close>

definition calculate_waiting_time :: "int \<Rightarrow> int \<Rightarrow> error + int" where
  "calculate_waiting_time current_timestamp_in_milliseconds number =
     (if number = 0 then Inl ZeroDivisionError
      else Inr (number - (current_timestamp_in_milliseconds mod number)))"

subsection \<open>Order tracking and the gateway\<close>

text \<open>
  The two tracking lists of the worker. Venue order ids are strings.
\<close>

record tracking =
  currently_tracked_orders_ids :: "string list"
  tracked_orders_ids :: "string list"

text \<open>
  Modelled from the spec: the enumerations of \<^verbatim>\<open>hummingbot.types\<close> are not in the source
  tree. The spec gives an order the side BUY or SELL and the type LIMIT; these are also
  the only members that the worker names.
\<close>

datatype OrderSide = BUY | SELL

datatype OrderType = LIMIT

text \<open>
  The part of the configuration and of the fetched market that goes into every request.
\<close>

record request_context =
  chain :: string
  network :: string
  connector :: string
  market_id :: string
  owner_address :: string

text \<open>
  The request of \<^verbatim>\<open>kujira_delete_orders\<close>. Its \<^verbatim>\<open>ids\<close> are
  \<^verbatim>\<open>list(set(...) - set(...))\<close>: the order of that list is the iteration order of a Python
  set, which the language leaves open, so the model keeps the set.
\<close>

record delete_request =
  del_context :: request_context
  del_ids :: "string set"

text \<open>
  \<^verbatim>\<open>_cancel_currently_untracked_orders\<close>. The last argument is what
  \<^verbatim>\<open>Gateway.kujira_delete_orders\<close> answers to a request (\<open>Inl\<close> when it raises). The
  result is the request that was sent, if any, and the response or the exception.
\<close>

definition cancel_currently_untracked_orders ::
  "request_context \<Rightarrow> tracking \<Rightarrow> string list \<Rightarrow> (delete_request \<Rightarrow> error + 'r list)
     \<Rightarrow> delete_request option \<times> (error + 'r list)" where
  "cancel_currently_untracked_orders cx st open_orders_ids kujira_delete_orders =
     (let untracked_orders_ids =
            (set (tracked_orders_ids st) \<inter> set open_orders_ids)
              - set (currently_tracked_orders_ids st)
      in if untracked_orders_ids \<noteq> {} then
           (let request = \<lparr>del_context = cx, del_ids = untracked_orders_ids\<rparr>
            in (Some request, kujira_delete_orders request))
         else (None, Inr []))"

subsection \<open>Decimal values\<close>

text \<open>
  A \<^verbatim>\<open>decimal.Decimal\<close> is a finite number, one of the two infinities or a quiet NaN.
  Finite values are rationals: the rounding of the decimal context (28 significant digits)
  and of binary floats is not modelled, nor is the sign of a zero. The special values
  behave as in Python's default context: an ordering comparison with a NaN raises
  \<^verbatim>\<open>InvalidOperation\<close>, arithmetic on a NaN gives NaN, a finite non-zero value divided
  by zero raises \<^verbatim>\<open>DivisionByZero\<close>, and \<open>0 / 0\<close>, \<open>\<infinity> * 0\<close> and
  \<open>\<infinity> - \<infinity>\<close> raise \<^verbatim>\<open>InvalidOperation\<close>.
\<close>

datatype dec = Fin rat | PInf | NInf | NaN

fun dec_lt :: "dec \<Rightarrow> dec \<Rightarrow> error + bool" where
  "dec_lt NaN _ = Inl InvalidOperation"
| "dec_lt _ NaN = Inl InvalidOperation"
| "dec_lt (Fin x) (Fin y) = Inr (x < y)"
| "dec_lt (Fin _) PInf = Inr True"
| "dec_lt (Fin _) NInf = Inr False"
| "dec_lt PInf _ = Inr False"
| "dec_lt NInf NInf = Inr False"
| "dec_lt NInf _ = Inr True"

definition dec_gt :: "dec \<Rightarrow> dec \<Rightarrow> error + bool" where
  "dec_gt a b = dec_lt b a"

definition dec_le :: "dec \<Rightarrow> dec \<Rightarrow> error + bool" where
  "dec_le a b = (case dec_lt b a of Inl e \<Rightarrow> Inl e | Inr c \<Rightarrow> Inr (\<not> c))"

text \<open>
  Python's \<^verbatim>\<open>min(a, b)\<close> keeps \<open>a\<close> unless \<open>b < a\<close>, and \<^verbatim>\<open>max(a, b)\<close> keeps
  \<open>a\<close> unless \<open>b > a\<close>.
\<close>

definition py_min :: "dec \<Rightarrow> dec \<Rightarrow> error + dec" where
  "py_min a b = (case dec_lt b a of Inl e \<Rightarrow> Inl e | Inr c \<Rightarrow> Inr (if c then b else a))"

definition py_max :: "dec \<Rightarrow> dec \<Rightarrow> error + dec" where
  "py_max a b = (case dec_gt b a of Inl e \<Rightarrow> Inl e | Inr c \<Rightarrow> Inr (if c then b else a))"

fun dec_mul :: "dec \<Rightarrow> dec \<Rightarrow> error + dec" where
  "dec_mul NaN _ = Inr NaN"
| "dec_mul _ NaN = Inr NaN"
| "dec_mul (Fin x) (Fin y) = Inr (Fin (x * y))"
| "dec_mul (Fin x) PInf =
     (if x = 0 then Inl InvalidOperation else Inr (if 0 < x then PInf else NInf))"
| "dec_mul (Fin x) NInf =
     (if x = 0 then Inl InvalidOperation else Inr (if 0 < x then NInf else PInf))"
| "dec_mul PInf (Fin y) =
     (if y = 0 then Inl InvalidOperation else Inr (if 0 < y then PInf else NInf))"
| "dec_mul NInf (Fin y) =
     (if y = 0 then Inl InvalidOperation else Inr (if 0 < y then NInf else PInf))"
| "dec_mul PInf PInf = Inr PInf"
| "dec_mul PInf NInf = Inr NInf"
| "dec_mul NInf PInf = Inr NInf"
| "dec_mul NInf NInf = Inr PInf"


text \<open>
  The two divisions of the size computation: a finite decimal divided by a decimal, and
  a decimal divided by a Python integer.
\<close>

fun rat_div_dec :: "rat \<Rightarrow> dec \<Rightarrow> error + dec" where
  "rat_div_dec x (Fin y) =
     (if y = 0 then (if x = 0 then Inl InvalidOperation else Inl DivisionByZero)
      else Inr (Fin (x / y)))"
| "rat_div_dec x PInf = Inr (Fin 0)"
| "rat_div_dec x NInf = Inr (Fin 0)"
| "rat_div_dec x NaN = Inr NaN"

fun dec_div_int :: "dec \<Rightarrow> int \<Rightarrow> error + dec" where
  "dec_div_int (Fin x) q =
     (if q = 0 then (if x = 0 then Inl InvalidOperation else Inl DivisionByZero)
      else Inr (Fin (x / of_int q)))"
| "dec_div_int PInf q = Inr (if 0 \<le> q then PInf else NInf)"
| "dec_div_int NInf q = Inr (if 0 \<le> q then NInf else PInf)"
| "dec_div_int NaN q = Inr NaN"

subsection \<open>Orders and their placement (\<^verbatim>\<open>_replace_orders\<close>)\<close>

record order =
  client_id :: string
  market_name :: string
  order_type :: OrderType
  side :: OrderSide
  amount :: dec
  price :: dec

text \<open>
  The dictionary built for each candidate. Price and amount go on the wire as
  \<^verbatim>\<open>str(...)\<close> of the decimal; the model keeps the decimal.
\<close>

record wire_order =
  w_clientId :: string
  w_marketId :: string
  w_ownerAddress :: string
  w_side :: OrderSide
  w_price :: dec
  w_amount :: dec
  w_type :: OrderType

record post_request =
  post_chain :: string
  post_network :: string
  post_connector :: string
  post_orders :: "wire_order list"

text \<open>
  \<^verbatim>\<open>kujira_order_type\<close> is the configured order type, \<open>None\<close> when the key is absent
  (the default is \<^verbatim>\<open>LIMIT\<close>).
\<close>

definition to_wire :: "request_context \<Rightarrow> OrderType option \<Rightarrow> order \<Rightarrow> wire_order" where
  "to_wire cx kujira_order_type candidate =
     (let order_type = (case kujira_order_type of None \<Rightarrow> LIMIT | Some t \<Rightarrow> t)
      in \<lparr>w_clientId = client_id candidate,
          w_marketId = market_id cx,
          w_ownerAddress = owner_address cx,
          w_side = side candidate,
          w_price = price candidate,
          w_amount = amount candidate,
          w_type = order_type\<rparr>)"

text \<open>
  \<^verbatim>\<open>_replace_orders\<close>. The gateway's answer to \<^verbatim>\<open>kujira_post_orders\<close> is a
  dictionary from venue id to placed order, in the model an association list in the
  dictionary's order. The result is the tracking lists afterwards, the request that was
  sent, if any, and the response or the exception.
\<close>

definition replace_orders ::
  "request_context \<Rightarrow> OrderType option \<Rightarrow> tracking \<Rightarrow> order list
     \<Rightarrow> (post_request \<Rightarrow> error + (string \<times> 'p) list)
     \<Rightarrow> tracking \<times> post_request option \<times> (error + (string \<times> 'p) list)" where
  "replace_orders cx kujira_order_type st proposal kujira_post_orders =
     (let orders = map (to_wire cx kujira_order_type) proposal;
          request = \<lparr>post_chain = chain cx, post_network = network cx,
                     post_connector = connector cx, post_orders = orders\<rparr>
      in if length orders \<noteq> 0 then
           (case kujira_post_orders request of
              Inl exception \<Rightarrow> (st, Some request, Inl exception)
            | Inr response \<Rightarrow>
                (let st1 = st\<lparr>currently_tracked_orders_ids := map fst response\<rparr>;
                     st2 = st1\<lparr>tracked_orders_ids :=
                                 tracked_orders_ids st1 @ currently_tracked_orders_ids st1\<rparr>
                 in (st2, Some request, Inr response)))
         else (st, None, Inr []))"

subsection \<open>The budget adjuster (\<^verbatim>\<open>_adjust_proposal_to_budget\<close>)\<close>




text \<open>Sample values for the closed instances below.\<close>

definition sample_context :: request_context where
  "sample_context =
     \<lparr>chain = ''kujira'', network = ''mainnet'', connector = ''kujira'',
      market_id = ''market-1'', owner_address = ''wallet-1''\<rparr>"

definition sample_order :: "OrderSide \<Rightarrow> rat \<Rightarrow> rat \<Rightarrow> order" where
  "sample_order s a p =
     \<lparr>client_id = ''1'', market_name = ''KUJI/USK'', order_type = LIMIT, side = s,
      amount = Fin a, price = Fin p\<rparr>"

subsection \<open>The duplicate scan (\<^verbatim>\<open>_get_duplicated_orders_ids\<close>)\<close>

text \<open>
  An open order as the scan reads it: the venue id (\<^verbatim>\<open>order.id\<close>) and the client id.
  The open orders are the values of the dictionary the gateway returned, in its order.
  \<^verbatim>\<open>open_orders_map\<close> is a dictionary from client id to a list of orders; the model keeps
  it as an association list in insertion order. Python's \<^verbatim>\<open>sort\<close> is stable, as
  \<open>sort_key\<close> is, and strings compare lexicographically by code point.
\<close>

record venue_order =
  order_id :: string
  clientId :: string

fun group_loop ::
  "(string \<times> venue_order list) list \<Rightarrow> venue_order list \<Rightarrow> (string \<times> venue_order list) list" where
  "group_loop open_orders_map [] = open_orders_map"
| "group_loop open_orders_map (open_order # rest) =
     (if clientId open_order = ''0'' then group_loop open_orders_map rest
      else if map_of open_orders_map (clientId open_order) = None then
        group_loop (open_orders_map @ [(clientId open_order, [open_order])]) rest
      else
        group_loop
          (map (\<lambda>(k, orders). if k = clientId open_order then (k, orders @ [open_order])
                               else (k, orders)) open_orders_map) rest)"

definition get_duplicated_orders_ids :: "venue_order list \<Rightarrow> string list" where
  "get_duplicated_orders_ids open_orders =
     (let open_orders_map = group_loop [] open_orders
      in foldl (\<lambda>duplicated_orders_ids orders.
                  duplicated_orders_ids @ map order_id (butlast (sort_key order_id orders)))
           [] (map snd open_orders_map))"


text \<open>The open orders that carry a given client id, for the statements below.\<close>

definition group_of :: "string \<Rightarrow> venue_order list \<Rightarrow> venue_order list" where
  "group_of c xs = filter (\<lambda>x. clientId x = c \<and> c \<noteq> ''0'') xs"

subsection \<open>Constants of \<^verbatim>\<open>hummingbot.constants\<close>\<close>

text \<open>
  Modelled from the spec: \<^verbatim>\<open>DECIMAL_ZERO\<close> and \<^verbatim>\<open>DECIMAL_NAN\<close> are not in the source
  tree; the spec names them the decimal zero and NaN sentinels for missing prices.
  \<^verbatim>\<open>VWAP_THRESHOLD\<close> (a percentage) is a parameter of the functions that use it.
\<close>

definition DECIMAL_ZERO :: dec where
  "DECIMAL_ZERO = Fin 0"

definition DECIMAL_NAN :: dec where
  "DECIMAL_NAN = NaN"

subsection \<open>The order book (\<^verbatim>\<open>_parse_order_book\<close>)\<close>

text \<open>
  A level of the book. Prices and amounts are numbers; the order book of the gateway is
  two dictionaries, whose values come in the dictionary's order.
\<close>

record level =
  level_price :: rat
  level_amount :: rat

record order_book =
  book_bids :: "level list"
  book_asks :: "level list"

text \<open>
  Bids are sorted by price with \<^verbatim>\<open>reverse=True\<close>, asks without. Python's sort is
  stable also when reversed: levels of equal price keep their order.
\<close>

definition parse_order_book :: "order_book \<Rightarrow> level list \<times> level list" where
  "parse_order_book orderbook =
     (let bids_list = map (\<lambda>v. \<lparr>level_price = level_price v, level_amount = level_amount v\<rparr>)
                        (book_bids orderbook);
          asks_list = map (\<lambda>v. \<lparr>level_price = level_price v, level_amount = level_amount v\<rparr>)
                        (book_asks orderbook)
      in (rev (sort_key level_price (rev bids_list)), sort_key level_price asks_list))"

subsection \<open>The middle price (\<^verbatim>\<open>_calculate_middle_price\<close> and its helpers)\<close>

text \<open>
  Modelled from the spec: the two strategy enumerations of \<^verbatim>\<open>hummingbot.types\<close> are not
  in the source tree. The spec gives the price strategies TICKER, MIDDLE and LAST_FILL
  and the middle price strategies SAP, WAP and VWAP. With these members the branches of
  the source that raise for an unrecognized strategy are never taken.
\<close>

datatype PriceStrategy = TICKER | MIDDLE | LAST_FILL

datatype MiddlePriceStrategy = SAP | WAP | VWAP

text \<open>
  The three computations work on binary floats and convert the result to a decimal.
  Floats are rationals here; a float division by zero (numpy gives an infinity or a NaN,
  with a warning and no exception) gives the special value.
\<close>

text \<open>
  \<^verbatim>\<open>asks[:math.ceil((VWAP_THRESHOLD / 100) * len(asks))]\<close>: a slice up to a negative bound
  counts from the end.
\<close>

definition slice_to :: "int \<Rightarrow> 'a list \<Rightarrow> 'a list" where
  "slice_to n xs = (if 0 \<le> n then take (nat n) xs else take (nat (int (length xs) + n)) xs)"

definition split_percentage :: "rat \<Rightarrow> level list \<Rightarrow> level list \<Rightarrow> level list \<times> level list" where
  "split_percentage vwap_threshold bids asks =
     (let asks1 = slice_to \<lceil>(vwap_threshold / 100) * of_nat (length asks)\<rceil> asks;
          bids1 = slice_to \<lceil>(vwap_threshold / 100) * of_nat (length bids)\<rceil> bids
      in (bids1, asks1))"

text \<open>
  \<^verbatim>\<open>numpy.percentile\<close> with its default linear interpolation: on the sorted values
  \<open>s\<close> of length \<open>n\<close> the \<open>q\<close>-th percentile lies at the position \<open>(n - 1) q / 100\<close>,
  between the two neighbouring values. It is used on a non-empty list only.
\<close>

definition np_percentile :: "rat list \<Rightarrow> rat \<Rightarrow> rat" where
  "np_percentile xs q =
     (let s = sort xs;
          n = length s;
          h = of_nat (n - 1) * q / 100;
          lo = nat \<lfloor>h\<rfloor>;
          hi = min (lo + 1) (n - 1)
      in s ! lo + (h - of_nat lo) * (s ! hi - s ! lo))"

text \<open>
  \<^verbatim>\<open>_remove_outliers\<close>. The callers pass a non-empty book; on an empty one the
  comprehension has nothing to keep.
\<close>

definition remove_outliers :: "level list \<Rightarrow> OrderSide \<Rightarrow> level list" where
  "remove_outliers book sd =
     (if book = [] then []
      else
        (let prices = map level_price book;
             q75 = np_percentile prices 75;
             q25 = np_percentile prices 25;
             max_threshold = q75 * (3 / 2);
             min_threshold = q25 * (1 / 2)
         in case sd of
              SELL \<Rightarrow> filter (\<lambda>order. level_price order < max_threshold) book
            | BUY \<Rightarrow> filter (\<lambda>order. level_price order > min_threshold) book))"

text \<open>
  \<^verbatim>\<open>_compute_volume_weighted_average_price\<close> returns the running quotients
  \<^verbatim>\<open>cumsum(amounts * prices) / cumsum(amounts)\<close>, of which the caller takes the last.
\<close>

definition float_div :: "rat \<Rightarrow> rat \<Rightarrow> dec" where
  "float_div x y =
     (if y = 0 then (if x = 0 then NaN else if 0 < x then PInf else NInf) else Fin (x / y))"

definition compute_volume_weighted_average_price :: "level list \<Rightarrow> dec list" where
  "compute_volume_weighted_average_price book =
     map (\<lambda>k. float_div (\<Sum>order \<leftarrow> take k book. level_amount order * level_price order)
                          (\<Sum>order \<leftarrow> take k book. level_amount order))
       [1 ..< Suc (length book)]"

text \<open>
  Python's \<^verbatim>\<open>min\<close> and \<^verbatim>\<open>max\<close> of a non-empty list, and \<^verbatim>\<open>list.index\<close> of a value
  that occurs in the list (the first level with that price).
\<close>

fun calculate_middle_price ::
  "rat \<Rightarrow> level list \<Rightarrow> level list \<Rightarrow> MiddlePriceStrategy \<Rightarrow> error + dec" where
  "calculate_middle_price vwap_threshold bids asks SAP =
     (let bid_prices = map level_price bids;
          ask_prices = map level_price asks;
          best_ask_price = (case ask_prices of [] \<Rightarrow> 0 | p # ps \<Rightarrow> fold min ps p);
          best_bid_price = (case bid_prices of [] \<Rightarrow> 0 | p # ps \<Rightarrow> fold max ps p)
      in Inr (Fin ((best_ask_price + best_bid_price) / 2)))"
| "calculate_middle_price vwap_threshold bids asks WAP =
     (let bid_prices = map level_price bids;
          ask_prices = map level_price asks;
          (best_ask_price, best_ask_volume) =
             (case ask_prices of
                [] \<Rightarrow> (0, 0)
              | p # ps \<Rightarrow>
                  (case find (\<lambda>l. level_price l = fold min ps p) asks of
                     None \<Rightarrow> (0, 0)
                   | Some l \<Rightarrow> (level_price l, level_amount l)));
          (best_bid_price, best_bid_amount) =
             (case bid_prices of
                [] \<Rightarrow> (0, 0)
              | p # ps \<Rightarrow>
                  (case find (\<lambda>l. level_price l = fold max ps p) bids of
                     None \<Rightarrow> (0, 0)
                   | Some l \<Rightarrow> (level_price l, level_amount l)))
      in if best_ask_volume + best_bid_amount > 0 then
           Inr (Fin ((best_ask_price * best_ask_volume + best_bid_price * best_bid_amount)
                       / (best_ask_volume + best_bid_amount)))
         else Inr DECIMAL_ZERO)"
| "calculate_middle_price vwap_threshold bids asks VWAP =
     (let (bids1, asks1) = split_percentage vwap_threshold bids asks;
          bids2 = (if length bids1 > 0 then remove_outliers bids1 BUY else bids1);
          asks2 = (if length asks1 > 0 then remove_outliers asks1 SELL else asks1);
          book = bids2 @ asks2
      in if length book > 0 then
           (let vwap = compute_volume_weighted_average_price book in Inr (last vwap))
         else Inr DECIMAL_ZERO)"

text \<open>
  \<^verbatim>\<open>_get_market_middle_price\<close>. Its first argument stands for the calls
  \<^verbatim>\<open>self._calculate_middle_price(bids, asks, \<dots>)\<close> and its second for the call
  \<^verbatim>\<open>self._get_market_price()\<close> of the last fallback, so that the chain of
  \<^verbatim>\<open>try\<close> blocks is defined whatever each attempt does. A member of the strategy
  enumeration is truthy; \<open>None\<close> is the absent argument.
\<close>

definition get_market_middle_price ::
  "(MiddlePriceStrategy \<Rightarrow> error + dec) \<Rightarrow> (error + dec) \<Rightarrow> MiddlePriceStrategy option
     \<Rightarrow> error + dec" where
  "get_market_middle_price calculate get_market_price strategy =
     (case strategy of
        Some s \<Rightarrow> calculate s
      | None \<Rightarrow>
          (case calculate VWAP of
             Inr p \<Rightarrow> Inr p
           | Inl _ \<Rightarrow>
               (case calculate WAP of
                  Inr p \<Rightarrow> Inr p
                | Inl _ \<Rightarrow>
                    (case calculate SAP of
                       Inr p \<Rightarrow> Inr p
                     | Inl _ \<Rightarrow> get_market_price))))"

subsection \<open>The proposal builder (\<^verbatim>\<open>_create_proposal\<close>)\<close>

text \<open>
  The configuration of a layer, the two market minima and the strategy options that the
  builder reads. \<open>None\<close> is an absent configuration key.
\<close>

record layer_side =
  quantity :: int
  spread_percentage :: rat
  max_liquidity_in_dollars :: rat

record layer =
  bid :: layer_side
  ask :: layer_side

record market =
  minimumPriceIncrement :: rat
  minimumOrderSize :: rat

record strategy_configuration =
  price_strategy :: "PriceStrategy option"
  middle_price_strategy :: "MiddlePriceStrategy option"
  layers :: "layer list"

text \<open>
  What the gateway answers during one run of the builder: the order book, the ticker
  price, the price of the last filled order (\<open>None\<close> when there is none), and the ticker
  price fetched again by the last fallback of the middle price.
\<close>

record environment =
  fetched_order_book :: "error + order_book"
  fetched_ticker_price :: "error + rat"
  fetched_last_filled_order_price :: "error + rat option"
  refetched_ticker_price :: "error + rat"

text \<open>The warnings logged when a layer is skipped, with the index of the layer.\<close>

datatype warning =
    BidPriceTooLow nat
  | BidSizeTooLow nat
  | AskPriceTooLow nat
  | AskSizeTooLow nat

text \<open>
  The local variables of the two loops over the layers. The warnings of a run that
  raises are not kept.
\<close>

record builder =
  client_id_counter :: nat
  bid_orders :: "order list"
  ask_orders :: "order list"
  warnings :: "warning list"

text \<open>Sequencing: an exception ends the computation.\<close>

definition then_do :: "error + 'a \<Rightarrow> ('a \<Rightarrow> error + 'b) \<Rightarrow> error + 'b" where
  "then_do m f = (case m of Inl e \<Rightarrow> Inl e | Inr x \<Rightarrow> f x)"

text \<open>\<^verbatim>\<open>str(client_id)\<close>: the decimal digits of a natural number.\<close>

function str_nat :: "nat \<Rightarrow> string" where
  "str_nat n =
     (if n < 10 then [char_of (48 + n)]
      else str_nat (n div 10) @ [char_of (48 + n mod 10)])"
  by pat_completeness auto
termination
  by (relation "measure (\<lambda>n. n)") auto

declare str_nat.simps [simp del]

text \<open>
  \<^verbatim>\<open>used_price is None or used_price <= DECIMAL_ZERO\<close>, and the exception raised then.
\<close>

definition check_price :: "dec option \<Rightarrow> error + dec" where
  "check_price used_price =
     (case used_price of
        None \<Rightarrow> Inl InvalidPrice
      | Some p \<Rightarrow>
          then_do (dec_le p DECIMAL_ZERO)
            (\<lambda>not_positive. if not_positive then Inl InvalidPrice else Inr p))"

text \<open>
  The choice of the reference price. The configured names are members of the
  enumerations; an absent \<^verbatim>\<open>price_strategy\<close> is \<^verbatim>\<open>TICKER\<close> and an absent
  \<^verbatim>\<open>middle_price_strategy\<close> is \<^verbatim>\<open>SAP\<close>. A failure to get the last filled order is
  caught and gives \<^verbatim>\<open>DECIMAL_ZERO\<close>; no filled order gives \<^verbatim>\<open>DECIMAL_NAN\<close>.
\<close>

definition select_used_price ::
  "rat \<Rightarrow> strategy_configuration \<Rightarrow> environment \<Rightarrow> level list \<Rightarrow> level list \<Rightarrow> error + dec" where
  "select_used_price vwap_threshold cfg env bids asks =
     then_do (fetched_ticker_price env)
       (\<lambda>ticker.
          let ticker_price = Fin ticker;
              last_filled_order_price =
                (case fetched_last_filled_order_price env of
                   Inl exception \<Rightarrow> DECIMAL_ZERO
                 | Inr None \<Rightarrow> DECIMAL_NAN
                 | Inr (Some p) \<Rightarrow> Fin p);
              the_price_strategy =
                (case price_strategy cfg of None \<Rightarrow> TICKER | Some s \<Rightarrow> s)
          in case the_price_strategy of
               TICKER \<Rightarrow> Inr ticker_price
             | MIDDLE \<Rightarrow>
                 (let the_middle_price_strategy =
                        (case middle_price_strategy cfg of None \<Rightarrow> SAP | Some m \<Rightarrow> m)
                  in get_market_middle_price
                       (calculate_middle_price vwap_threshold bids asks)
                       (case refetched_ticker_price env of
                          Inl e \<Rightarrow> Inl e | Inr t \<Rightarrow> Inr (Fin t))
                       (Some the_middle_price_strategy))
             | LAST_FILL \<Rightarrow> Inr last_filled_order_price)"

text \<open>
  The price of a layer's bids. \<^verbatim>\<open>next(iter(asks), {"price": FLOAT_INFINITY}).price\<close>
  reads the attribute \<^verbatim>\<open>price\<close> of the first level; when there is no level the default
  is a plain dictionary, which has no such attribute, and the read raises
  \<^verbatim>\<open>AttributeError\<close>. Likewise for the asks and the first bid.
\<close>

definition compute_bid_market_price :: "dec \<Rightarrow> level list \<Rightarrow> layer \<Rightarrow> error + dec" where
  "compute_bid_market_price used_price asks l =
     (case asks of
        [] \<Rightarrow> Inl AttributeError
      | a # _ \<Rightarrow>
          (let best_ask = Fin (level_price a);
               bid_spread_percentage = spread_percentage (bid l)
           in then_do (py_min used_price best_ask)
                (\<lambda>m. dec_mul (Fin ((100 - bid_spread_percentage) / 100)) m)))"

definition compute_ask_market_price :: "dec \<Rightarrow> level list \<Rightarrow> layer \<Rightarrow> error + dec" where
  "compute_ask_market_price used_price bids l =
     (case bids of
        [] \<Rightarrow> Inl AttributeError
      | b # _ \<Rightarrow>
          (let best_bid = Fin (level_price b);
               ask_spread_percentage = spread_percentage (ask l)
           in then_do (py_max used_price best_bid)
                (\<lambda>m. dec_mul (Fin ((100 + ask_spread_percentage) / 100)) m)))"

text \<open>
  \<^verbatim>\<open>max_liquidity_in_dollars / market_price / quantity if quantity > 0 else 0\<close>.
\<close>

definition compute_size :: "layer_side \<Rightarrow> dec \<Rightarrow> error + dec" where
  "compute_size sd market_price =
     (if quantity sd > 0 then
        then_do (rat_div_dec (max_liquidity_in_dollars sd) market_price)
          (\<lambda>x. dec_div_int x (quantity sd))
      else Inr (Fin 0))"

text \<open>
  \<^verbatim>\<open>for i in range(quantity)\<close>: each round appends one order with the current client id
  and increments the counter.
\<close>

fun emit_orders :: "nat \<Rightarrow> (nat \<Rightarrow> order) \<Rightarrow> nat \<Rightarrow> order list \<Rightarrow> nat \<times> order list" where
  "emit_orders 0 new_order c orders = (c, orders)"
| "emit_orders (Suc n) new_order c orders =
     emit_orders n new_order (c + 1) (orders @ [new_order c])"

definition bid_layer ::
  "market \<Rightarrow> string \<Rightarrow> dec \<Rightarrow> level list \<Rightarrow> nat \<Rightarrow> layer \<Rightarrow> builder \<Rightarrow> error + builder" where
  "bid_layer mk name used_price asks index l st =
     then_do (compute_bid_market_price used_price asks l)
       (\<lambda>bid_market_price.
     then_do (compute_size (bid l) bid_market_price)
       (\<lambda>bid_size.
     then_do (dec_lt bid_market_price (Fin (minimumPriceIncrement mk)))
       (\<lambda>price_too_low.
          if price_too_low then
            Inr (st\<lparr>warnings := warnings st @ [BidPriceTooLow index]\<rparr>)
          else
            then_do (dec_lt bid_size (Fin (minimumOrderSize mk)))
              (\<lambda>size_too_low.
                 if size_too_low then
                   Inr (st\<lparr>warnings := warnings st @ [BidSizeTooLow index]\<rparr>)
                 else
                   (let (c, os) =
                          emit_orders (nat (quantity (bid l)))
                            (\<lambda>c. \<lparr>client_id = str_nat c, market_name = name,
                                   order_type = LIMIT, side = BUY,
                                   amount = bid_size, price = bid_market_price\<rparr>)
                            (client_id_counter st) (bid_orders st)
                    in Inr (st\<lparr>client_id_counter := c, bid_orders := os\<rparr>))))))"

definition ask_layer ::
  "market \<Rightarrow> string \<Rightarrow> dec \<Rightarrow> level list \<Rightarrow> nat \<Rightarrow> layer \<Rightarrow> builder \<Rightarrow> error + builder" where
  "ask_layer mk name used_price bids index l st =
     then_do (compute_ask_market_price used_price bids l)
       (\<lambda>ask_market_price.
     then_do (compute_size (ask l) ask_market_price)
       (\<lambda>ask_size.
     then_do (dec_lt ask_market_price (Fin (minimumPriceIncrement mk)))
       (\<lambda>price_too_low.
          if price_too_low then
            Inr (st\<lparr>warnings := warnings st @ [AskPriceTooLow index]\<rparr>)
          else
            then_do (dec_lt ask_size (Fin (minimumOrderSize mk)))
              (\<lambda>size_too_low.
                 if size_too_low then
                   Inr (st\<lparr>warnings := warnings st @ [AskSizeTooLow index]\<rparr>)
                 else
                   (let (c, os) =
                          emit_orders (nat (quantity (ask l)))
                            (\<lambda>c. \<lparr>client_id = str_nat c, market_name = name,
                                   order_type = LIMIT, side = SELL,
                                   amount = ask_size, price = ask_market_price\<rparr>)
                            (client_id_counter st) (ask_orders st)
                    in Inr (st\<lparr>client_id_counter := c, ask_orders := os\<rparr>))))))"

text \<open>The two loops over \<^verbatim>\<open>enumerate(layers, start=1)\<close>.\<close>

fun bid_loop ::
  "market \<Rightarrow> string \<Rightarrow> dec \<Rightarrow> level list \<Rightarrow> nat \<Rightarrow> layer list \<Rightarrow> builder \<Rightarrow> error + builder" where
  "bid_loop mk name used_price asks index [] st = Inr st"
| "bid_loop mk name used_price asks index (l # ls) st =
     then_do (bid_layer mk name used_price asks index l st)
       (bid_loop mk name used_price asks (index + 1) ls)"

fun ask_loop ::
  "market \<Rightarrow> string \<Rightarrow> dec \<Rightarrow> level list \<Rightarrow> nat \<Rightarrow> layer list \<Rightarrow> builder \<Rightarrow> error + builder" where
  "ask_loop mk name used_price bids index [] st = Inr st"
| "ask_loop mk name used_price bids index (l # ls) st =
     then_do (ask_layer mk name used_price bids index l st)
       (ask_loop mk name used_price bids (index + 1) ls)"

text \<open>
  The layers part of the builder, from the reference price on, and the whole builder.
  The result is the proposal and the warnings logged.
\<close>

definition build_layers ::
  "strategy_configuration \<Rightarrow> market \<Rightarrow> string \<Rightarrow> level list \<Rightarrow> level list \<Rightarrow> dec
     \<Rightarrow> error + order list \<times> warning list" where
  "build_layers cfg mk name bids asks used_price =
     then_do (bid_loop mk name used_price asks 1 (layers cfg)
                \<lparr>client_id_counter = 1, bid_orders = [], ask_orders = [], warnings = []\<rparr>)
       (\<lambda>st1.
     then_do (ask_loop mk name used_price bids 1 (layers cfg) st1)
       (\<lambda>st2. Inr ([] @ bid_orders st2 @ ask_orders st2, warnings st2)))"

definition create_proposal ::
  "rat \<Rightarrow> strategy_configuration \<Rightarrow> market \<Rightarrow> string \<Rightarrow> environment
     \<Rightarrow> error + order list \<times> warning list" where
  "create_proposal vwap_threshold cfg mk name env =
     then_do (fetched_order_book env)
       (\<lambda>order_book.
          let (bids, asks) = parse_order_book order_book
          in then_do (select_used_price vwap_threshold cfg env bids asks)
               (\<lambda>used_price.
             then_do (check_price (Some used_price))
               (\<lambda>used_price. build_layers cfg mk name bids asks used_price)))"

text \<open>Sample values for the closed instances below.\<close>

definition sample_layer :: "int \<Rightarrow> rat \<Rightarrow> rat \<Rightarrow> layer" where
  "sample_layer q s m =
     \<lparr>bid = \<lparr>quantity = q, spread_percentage = s, max_liquidity_in_dollars = m\<rparr>,
      ask = \<lparr>quantity = q, spread_percentage = s, max_liquidity_in_dollars = m\<rparr>\<rparr>"

definition sample_environment :: "level list \<Rightarrow> level list \<Rightarrow> rat \<Rightarrow> environment" where
  "sample_environment bids asks ticker =
     \<lparr>fetched_order_book = Inr \<lparr>book_bids = bids, book_asks = asks\<rparr>,
      fetched_ticker_price = Inr ticker,
      fetched_last_filled_order_price = Inr None,
      refetched_ticker_price = Inr ticker\<rparr>"

subsection \<open>Notions used in the statements\<close>


text \<open>
  The fallback chain in the words of the specification: the attempts are made in order,
  a failed attempt is dropped, the first success is the result, and the last resort is
  taken when every attempt failed.
\<close>

fun attempt_in_order :: "(error + dec) list \<Rightarrow> (error + dec) \<Rightarrow> error + dec" where
  "attempt_in_order [] last_resort = last_resort"
| "attempt_in_order (Inr p # rest) last_resort = Inr p"
| "attempt_in_order (Inl e # rest) last_resort = attempt_in_order rest last_resort"


text \<open>
  \<open>placed_bid mk used asks l x\<close>: the order \<open>x\<close> is a bid that the layer \<open>l\<close> emits,
  that is, a BUY order with the price and the size computed for the layer, both having
  passed the two tests. Likewise \<open>placed_ask\<close>.
\<close>

definition placed_bid :: "market \<Rightarrow> dec \<Rightarrow> level list \<Rightarrow> layer \<Rightarrow> order \<Rightarrow> bool" where
  "placed_bid mk used_price asks l x =
     (side x = BUY
      \<and> compute_bid_market_price used_price asks l = Inr (price x)
      \<and> compute_size (bid l) (price x) = Inr (amount x)
      \<and> dec_lt (price x) (Fin (minimumPriceIncrement mk)) = Inr False
      \<and> dec_lt (amount x) (Fin (minimumOrderSize mk)) = Inr False)"

definition placed_ask :: "market \<Rightarrow> dec \<Rightarrow> level list \<Rightarrow> layer \<Rightarrow> order \<Rightarrow> bool" where
  "placed_ask mk used_price bids l x =
     (side x = SELL
      \<and> compute_ask_market_price used_price bids l = Inr (price x)
      \<and> compute_size (ask l) (price x) = Inr (amount x)
      \<and> dec_lt (price x) (Fin (minimumPriceIncrement mk)) = Inr False
      \<and> dec_lt (amount x) (Fin (minimumOrderSize mk)) = Inr False)"

definition sample_market :: market where
  "sample_market = \<lparr>minimumPriceIncrement = 1 / 1000, minimumOrderSize = 1 / 10\<rparr>"

definition sample_configuration :: "layer list \<Rightarrow> strategy_configuration" where
  "sample_configuration ls =
     \<lparr>price_strategy = None, middle_price_strategy = None, layers = ls\<rparr>"

definition sample_level :: "rat \<Rightarrow> rat \<Rightarrow> level" where
  "sample_level p a = \<lparr>level_price = p, level_amount = a\<rparr>"

definition sample_placed :: "nat \<Rightarrow> OrderSide \<Rightarrow> rat \<Rightarrow> rat \<Rightarrow> order" where
  "sample_placed c s a p =
     \<lparr>client_id = str_nat c, market_name = ''KUJI/USK'', order_type = LIMIT, side = s,
      amount = Fin a, price = Fin p\<rparr>"

section \<open>Verified properties\<close>

text \<open>
  C6. For every positive tick interval and every clock reading in milliseconds the
  waiting time is \<open>interval - (now mod interval)\<close>; it is positive, at most the
  interval, and the clock plus the waiting time is a multiple of the interval. With
  interval 1000 and a clock reading that ends in 345 the waiting time is 655.
\<close>

theorem waiting_time_grid:
  assumes "0 < number"
  shows "\<exists>delay. calculate_waiting_time now number = Inr delay
           \<and> delay = number - (now mod number)
           \<and> 0 < delay \<and> delay \<le> number
           \<and> (now + delay) mod number = 0"
proof -
  have r: "0 \<le> now mod number" "now mod number < number"
    using assms by simp_all
  have "now + (number - now mod number) = number * (1 + now div number)"
    by (simp add: algebra_simps minus_mod_eq_mult_div)
  then have g: "(now + (number - now mod number)) mod number = 0"
    by simp
  show ?thesis
    using assms r g by (simp add: calculate_waiting_time_def)
qed

theorem waiting_time_grid_witness:
  "(0::int) < 1000 \<and> calculate_waiting_time 1699999999345 1000 = Inr 655
     \<and> (1699999999345 + 655) mod (1000::int) = 0"
  using waiting_time_grid [of 1000 1699999999345]
  by (simp add: calculate_waiting_time_def)

text \<open>
  C1. Whatever the list of open venue ids, the operation submits to
  \<^verbatim>\<open>kujira_delete_orders\<close> one request whose ids are exactly those tracked and open
  but not currently tracked, and returns what the gateway answers to that request
  (its response, or its exception); when that set is empty it sends no request and
  returns the empty response. None of the ids is currently tracked, none lies outside
  the tracked ids, and none is a foreign open order.
\<close>

theorem cancel_untracked_submits:
  "cancel_currently_untracked_orders cx st open_orders_ids gw =
     (if (set (tracked_orders_ids st) \<inter> set open_orders_ids)
           - set (currently_tracked_orders_ids st) = {}
      then (None, Inr [])
      else (Some \<lparr>del_context = cx,
                   del_ids = (set (tracked_orders_ids st) \<inter> set open_orders_ids)
                               - set (currently_tracked_orders_ids st)\<rparr>,
            gw \<lparr>del_context = cx,
                del_ids = (set (tracked_orders_ids st) \<inter> set open_orders_ids)
                            - set (currently_tracked_orders_ids st)\<rparr>))
   \<and> ((set (tracked_orders_ids st) \<inter> set open_orders_ids)
          - set (currently_tracked_orders_ids st))
        \<inter> set (currently_tracked_orders_ids st) = {}
   \<and> (set (tracked_orders_ids st) \<inter> set open_orders_ids)
          - set (currently_tracked_orders_ids st) \<subseteq> set (tracked_orders_ids st)
   \<and> ((set (tracked_orders_ids st) \<inter> set open_orders_ids)
          - set (currently_tracked_orders_ids st))
        \<inter> (set open_orders_ids - set (tracked_orders_ids st)) = {}"
  by (auto simp: cancel_currently_untracked_orders_def Let_def)

theorem cancel_untracked_submits_witness:
  "cancel_currently_untracked_orders sample_context
      \<lparr>currently_tracked_orders_ids = [''B''], tracked_orders_ids = [''A'', ''B'', ''C'']\<rparr>
      [''A'', ''B'', ''D''] (\<lambda>request. Inr [request])
     = (Some \<lparr>del_context = sample_context, del_ids = {''A''}\<rparr>,
        Inr [\<lparr>del_context = sample_context, del_ids = {''A''}\<rparr>])
   \<and> cancel_currently_untracked_orders sample_context
      \<lparr>currently_tracked_orders_ids = [''B''], tracked_orders_ids = [''A'', ''B'', ''C'']\<rparr>
      [''A'', ''B'', ''D''] (\<lambda>request. (Inl GatewayError :: error + unit list))
     = (Some \<lparr>del_context = sample_context, del_ids = {''A''}\<rparr>, Inl GatewayError)
   \<and> cancel_currently_untracked_orders sample_context
      \<lparr>currently_tracked_orders_ids = [''B''], tracked_orders_ids = [''A'', ''B'', ''C'']\<rparr>
      [''B'', ''D''] (\<lambda>request. (Inl GatewayError :: error + unit list))
     = (None, Inr [])"
  using cancel_untracked_submits [where cx = sample_context
          and st = "\<lparr>currently_tracked_orders_ids = [''B''],
                      tracked_orders_ids = [''A'', ''B'', ''C'']\<rparr>"
          and open_orders_ids = "[''A'', ''B'', ''D'']"
          and gw = "\<lambda>request. Inr [request]"]
        cancel_untracked_submits [where cx = sample_context
          and st = "\<lparr>currently_tracked_orders_ids = [''B''],
                      tracked_orders_ids = [''A'', ''B'', ''C'']\<rparr>"
          and open_orders_ids = "[''A'', ''B'', ''D'']"
          and gw = "\<lambda>request. (Inl GatewayError :: error + unit list)"]
        cancel_untracked_submits [where cx = sample_context
          and st = "\<lparr>currently_tracked_orders_ids = [''B''],
                      tracked_orders_ids = [''A'', ''B'', ''C'']\<rparr>"
          and open_orders_ids = "[''B'', ''D'']"
          and gw = "\<lambda>request. (Inl GatewayError :: error + unit list)"]
  by (auto simp: cancel_currently_untracked_orders_def Let_def)

text \<open>
  C8. With an empty proposal no request is posted and both tracking lists stay as they
  are. With a non-empty proposal whose placement succeeds, the currently tracked ids
  become the keys of the response, those keys are appended to the tracked ids, and so
  every currently tracked id is a tracked id.
\<close>

theorem replace_orders_tracking:
  "(proposal = [] \<longrightarrow>
      replace_orders cx ot st proposal gw = (st, None, Inr []))
   \<and> (proposal \<noteq> [] \<longrightarrow>
        (\<forall>request response.
           request = \<lparr>post_chain = chain cx, post_network = network cx,
                      post_connector = connector cx,
                      post_orders = map (to_wire cx ot) proposal\<rparr>
           \<and> gw request = Inr response \<longrightarrow>
           (\<exists>st'. replace_orders cx ot st proposal gw = (st', Some request, Inr response)
              \<and> currently_tracked_orders_ids st' = map fst response
              \<and> tracked_orders_ids st' = tracked_orders_ids st @ map fst response
              \<and> set (currently_tracked_orders_ids st') \<subseteq> set (tracked_orders_ids st'))))"
  by (auto simp: replace_orders_def Let_def)


theorem replace_orders_tracking_witness:
  "replace_orders sample_context None
       \<lparr>currently_tracked_orders_ids = [''B''], tracked_orders_ids = [''A'', ''B'']\<rparr>
       [] (\<lambda>r. Inr [(''X'', ()), (''Y'', ())])
     = (\<lparr>currently_tracked_orders_ids = [''B''], tracked_orders_ids = [''A'', ''B'']\<rparr>,
        None, Inr [])
   \<and> fst (replace_orders sample_context None
       \<lparr>currently_tracked_orders_ids = [''B''], tracked_orders_ids = [''A'', ''B'']\<rparr>
       [sample_order BUY 5 9] (\<lambda>r. Inr [(''X'', ()), (''Y'', ())]))
     = \<lparr>currently_tracked_orders_ids = [''X'', ''Y''],
        tracked_orders_ids = [''A'', ''B'', ''X'', ''Y'']\<rparr>"
  using replace_orders_tracking [where cx = sample_context and ot = None
          and st = "\<lparr>currently_tracked_orders_ids = [''B''], tracked_orders_ids = [''A'', ''B'']\<rparr>"
          and proposal = "[]" and gw = "\<lambda>r. Inr [(''X'', ()), (''Y'', ())]"]
        replace_orders_tracking [where cx = sample_context and ot = None
          and st = "\<lparr>currently_tracked_orders_ids = [''B''], tracked_orders_ids = [''A'', ''B'']\<rparr>"
          and proposal = "[sample_order BUY 5 9]" and gw = "\<lambda>r. Inr [(''X'', ()), (''Y'', ())]"]
  by (simp add: replace_orders_def Let_def)

subsection \<open>The budget adjuster\<close>








subsection \<open>The duplicate scan\<close>

lemma map_of_upd:
  "map_of (map (\<lambda>(k, orders). if k = c then (k, orders @ [x]) else (k, orders)) m) d =
     (if d = c then map_option (\<lambda>orders. orders @ [x]) (map_of m d) else map_of m d)"
  by (induction m) auto

lemma fst_upd:
  "map fst (map (\<lambda>(k, orders). if k = c then (k, orders @ [x]) else (k, orders)) m) = map fst m"
  by (induction m) auto

lemma group_loop_distinct:
  "distinct (map fst m) \<Longrightarrow> distinct (map fst (group_loop m xs))"
proof (induction xs arbitrary: m)
  case Nil then show ?case by simp
next
  case (Cons x xs)
  show ?case
  proof (cases "clientId x = ''0''")
    case True with Cons show ?thesis by simp
  next
    case False
    show ?thesis
    proof (cases "map_of m (clientId x)")
      case None
      then have "clientId x \<notin> set (map fst m)" by (simp add: map_of_eq_None_iff)
      with Cons.prems have "distinct (map fst (m @ [(clientId x, [x])]))" by simp
      from Cons.IH [OF this] False None show ?thesis by simp
    next
      case (Some a)
      have "distinct (map fst (map (\<lambda>(k, orders). if k = clientId x then (k, orders @ [x]) else (k, orders)) m))"
        using Cons.prems by (simp only: fst_upd)
      from Cons.IH [OF this] False Some show ?thesis by simp
    qed
  qed
qed

lemma group_loop_lookup:
  "distinct (map fst m) \<Longrightarrow>
   map_of (group_loop m xs) c =
     (case map_of m c of
        None \<Rightarrow> (if group_of c xs = [] then None else Some (group_of c xs))
      | Some zs \<Rightarrow> Some (zs @ group_of c xs))"
proof (induction xs arbitrary: m)
  case Nil then show ?case by (simp add: group_of_def split: option.splits)
next
  case (Cons x xs)
  show ?case
  proof (cases "clientId x = ''0''")
    case True with Cons show ?thesis by (auto simp: group_of_def split: option.splits)
  next
    case False
    show ?thesis
    proof (cases "map_of m (clientId x)")
      case None
      then have "clientId x \<notin> set (map fst m)" by (simp add: map_of_eq_None_iff)
      with Cons.prems have d: "distinct (map fst (m @ [(clientId x, [x])]))" by simp
      show ?thesis
        using Cons.IH [OF d, of ] False None
        by (auto simp: group_of_def map_add_def split: option.splits)
    next
      case (Some a)
      have d: "distinct (map fst (map (\<lambda>(k, orders). if k = clientId x then (k, orders @ [x]) else (k, orders)) m))"
        using Cons.prems by (simp only: fst_upd)
      show ?thesis
        using Cons.IH [OF d] False Some
        by (auto simp: group_of_def map_of_upd split: option.splits)
    qed
  qed
qed

lemma foldl_dups_set:
  "set (foldl (\<lambda>acc orders. acc @ map order_id (butlast (sort_key order_id orders))) acc gs) =
     set acc \<union> (\<Union>g \<in> set gs. order_id ` set (butlast (sort_key order_id g)))"
  by (induction gs arbitrary: acc) auto

lemma duplicated_set:
  "set (get_duplicated_orders_ids xs) =
     (\<Union>c \<in> {c. group_of c xs \<noteq> []}. order_id ` set (butlast (sort_key order_id (group_of c xs))))"
proof -
  let ?m = "group_loop [] xs"
  have d: "distinct (map fst ?m)" by (rule group_loop_distinct) simp
  have l: "\<And>c. map_of ?m c = (if group_of c xs = [] then None else Some (group_of c xs))"
    using group_loop_lookup [of "[]" xs] by simp
  have "snd ` set ?m = ran (map_of ?m)" using d by (simp add: ran_distinct)
  also have "\<dots> = {g. \<exists>c. group_of c xs \<noteq> [] \<and> g = group_of c xs}"
    by (auto simp: ran_def l)
  finally have s: "snd ` set ?m = {g. \<exists>c. group_of c xs \<noteq> [] \<and> g = group_of c xs}" .
  show ?thesis
    unfolding get_duplicated_orders_ids_def Let_def foldl_dups_set
    using s by auto
qed

lemma butlast_sorted_iff:
  fixes f :: "'a \<Rightarrow> 'b::linorder"
  assumes "sorted (map f S)" "distinct (map f S)" "x \<in> set S"
  shows "x \<in> set (butlast S) \<longleftrightarrow> (\<exists>p \<in> set S. f x < f p)"
proof (cases S rule: rev_cases)
  case Nil
  with assms show ?thesis by simp
next
  case (snoc ys y)
  have le: "\<forall>z \<in> set ys. f z \<le> f y"
    using assms(1) snoc by (auto simp: sorted_append)
  have ne: "\<forall>z \<in> set ys. f z \<noteq> f y"
    using assms(2) snoc by (auto simp: image_iff)
  have lt: "\<forall>z \<in> set ys. f z < f y"
    using le ne by force
  show ?thesis
  proof (cases "x \<in> set ys")
    case True
    with lt snoc show ?thesis by auto
  next
    case False
    with assms(3) snoc have "x = y" by simp
    with False le snoc show ?thesis by (auto simp: not_less)
  qed
qed

lemma duplicated_member:
  assumes d: "distinct (map order_id xs)" and w: "w \<in> set xs"
  shows "order_id w \<in> set (get_duplicated_orders_ids xs) \<longleftrightarrow>
           clientId w \<noteq> ''0'' \<and> (\<exists>p \<in> set xs. clientId p = clientId w \<and> order_id w < order_id p)"
proof -
  have inj: "inj_on order_id (set xs)" using d by (simp add: distinct_map)
  have grp: "\<And>c. set (group_of c xs) = {x \<in> set xs. clientId x = c \<and> c \<noteq> ''0''}"
    by (auto simp: group_of_def)
  have dg: "\<And>c. distinct (map order_id (sort_key order_id (group_of c xs)))"
  proof -
    fix c
    have "distinct (map order_id (group_of c xs))"
      unfolding group_of_def using d by (rule distinct_map_filter)
    then show "distinct (map order_id (sort_key order_id (group_of c xs)))"
      by (simp add: distinct_map)
  qed
  have bl: "\<And>c x. x \<in> set (group_of c xs) \<Longrightarrow>
      x \<in> set (butlast (sort_key order_id (group_of c xs))) \<longleftrightarrow>
        (\<exists>p \<in> set (group_of c xs). order_id x < order_id p)"
    using butlast_sorted_iff [of order_id "sort_key order_id (group_of c xs)" for c, OF _ dg]
    by simp
  show ?thesis
  proof
    assume "order_id w \<in> set (get_duplicated_orders_ids xs)"
    then obtain c x where c: "group_of c xs \<noteq> []"
      and x: "x \<in> set (butlast (sort_key order_id (group_of c xs)))" and e: "order_id x = order_id w"
      unfolding duplicated_set by auto
    from x have xg: "x \<in> set (group_of c xs)"
      using in_set_butlastD by fastforce
    then have "x \<in> set xs" by (simp add: grp)
    with inj e w have "x = w" by (auto dest: inj_onD)
    with xg x bl [OF xg] show "clientId w \<noteq> ''0'' \<and> (\<exists>p \<in> set xs. clientId p = clientId w \<and> order_id w < order_id p)"
      by (auto simp: grp)
  next
    assume a: "clientId w \<noteq> ''0'' \<and> (\<exists>p \<in> set xs. clientId p = clientId w \<and> order_id w < order_id p)"
    let ?c = "clientId w"
    have og: "w \<in> set (group_of ?c xs)" using a w by (simp add: grp)
    then have ne: "group_of ?c xs \<noteq> []" by auto
    have "w \<in> set (butlast (sort_key order_id (group_of ?c xs)))"
      using bl [OF og] a by (auto simp: grp)
    with ne show "order_id w \<in> set (get_duplicated_orders_ids xs)"
      unfolding duplicated_set by blast
  qed
qed

lemma duplicated_origin:
  "x \<in> set (get_duplicated_orders_ids xs) \<Longrightarrow> \<exists>w \<in> set xs. order_id w = x \<and> clientId w \<noteq> ''0''"
proof -
  assume "x \<in> set (get_duplicated_orders_ids xs)"
  then obtain c y where "y \<in> set (butlast (sort_key order_id (group_of c xs)))" "order_id y = x"
    unfolding duplicated_set by auto
  moreover then have "y \<in> set (group_of c xs)"
    using in_set_butlastD by fastforce
  ultimately show ?thesis by (auto simp: group_of_def)
qed

lemma group_has_greatest:
  assumes "w \<in> set xs" "clientId w = c"
  shows "\<exists>g \<in> set xs. clientId g = c \<and> (\<forall>p \<in> set xs. clientId p = c \<longrightarrow> order_id p \<le> order_id g)"
proof -
  let ?G = "{x \<in> set xs. clientId x = c}"
  have f: "finite (order_id ` ?G)" by simp
  have n: "order_id ` ?G \<noteq> {}" using assms by auto
  from Max_in [OF f n] obtain g where g: "g \<in> ?G" "order_id g = Max (order_id ` ?G)" by auto
  have "\<forall>p \<in> ?G. order_id p \<le> order_id g"
    using g(2) f by auto
  with g(1) show ?thesis by auto
qed

text \<open>
  C9. The scan groups the open orders by client id and skips every order whose client id
  is "0"; in each group it sorts by venue id and returns the ids of all but the last.
  So every returned id belongs to an order whose client id is not "0", no order with
  client id "0" is returned, an order of a group is kept exactly when its venue id is
  the greatest of the group, and each group keeps exactly one order. Venue ids are the
  keys of the gateway's dictionary, hence pairwise different.
\<close>

theorem duplicate_scan_keeps_greatest:
  assumes "distinct (map order_id open_orders)"
  shows "(\<forall>x \<in> set (get_duplicated_orders_ids open_orders).
            \<exists>w \<in> set open_orders. order_id w = x \<and> clientId w \<noteq> ''0'')
       \<and> (\<forall>w \<in> set open_orders.
            clientId w = ''0'' \<longrightarrow> order_id w \<notin> set (get_duplicated_orders_ids open_orders))
       \<and> (\<forall>w \<in> set open_orders.
            clientId w \<noteq> ''0'' \<longrightarrow>
              (order_id w \<notin> set (get_duplicated_orders_ids open_orders) \<longleftrightarrow>
                 (\<forall>p \<in> set open_orders. clientId p = clientId w \<longrightarrow> order_id p \<le> order_id w)))
       \<and> (\<forall>w \<in> set open_orders.
            clientId w \<noteq> ''0'' \<longrightarrow>
              (\<exists>!g. g \<in> set open_orders \<and> clientId g = clientId w
                    \<and> order_id g \<notin> set (get_duplicated_orders_ids open_orders)))"
proof -
  let ?D = "set (get_duplicated_orders_ids open_orders)"
  have inj: "inj_on order_id (set open_orders)" using assms by (simp add: distinct_map)
  have a: "\<forall>x \<in> ?D. \<exists>w \<in> set open_orders. order_id w = x \<and> clientId w \<noteq> ''0''"
    using duplicated_origin by blast
  have b: "\<forall>w \<in> set open_orders. clientId w = ''0'' \<longrightarrow> order_id w \<notin> ?D"
    using duplicated_member [OF assms] by blast
  have c: "\<forall>w \<in> set open_orders. clientId w \<noteq> ''0'' \<longrightarrow>
              (order_id w \<notin> ?D \<longleftrightarrow>
                 (\<forall>p \<in> set open_orders. clientId p = clientId w \<longrightarrow> order_id p \<le> order_id w))"
    using duplicated_member [OF assms] by (auto simp: not_less)
  have e: "\<forall>w \<in> set open_orders. clientId w \<noteq> ''0'' \<longrightarrow>
              (\<exists>!g. g \<in> set open_orders \<and> clientId g = clientId w \<and> order_id g \<notin> ?D)"
  proof (intro ballI impI)
    fix w assume w: "w \<in> set open_orders" and z: "clientId w \<noteq> ''0''"
    from group_has_greatest [OF w refl] obtain g where g: "g \<in> set open_orders"
      "clientId g = clientId w"
      "\<forall>p \<in> set open_orders. clientId p = clientId w \<longrightarrow> order_id p \<le> order_id g" by blast
    have gk: "order_id g \<notin> ?D" using c g z by auto
    show "\<exists>!g. g \<in> set open_orders \<and> clientId g = clientId w \<and> order_id g \<notin> ?D"
    proof (rule ex1I [of _ g])
      show "g \<in> set open_orders \<and> clientId g = clientId w \<and> order_id g \<notin> ?D"
        using g gk by simp
    next
      fix h assume h: "h \<in> set open_orders \<and> clientId h = clientId w \<and> order_id h \<notin> ?D"
      then have "\<forall>p \<in> set open_orders. clientId p = clientId h \<longrightarrow> order_id p \<le> order_id h"
        using c z by auto
      with g h have "order_id g \<le> order_id h" "order_id h \<le> order_id g" by auto
      then have "order_id h = order_id g" by simp
      with inj g(1) h show "h = g" by (auto dest: inj_onD)
    qed
  qed
  from a b c e show ?thesis by blast
qed

theorem duplicate_scan_keeps_greatest_witness:
  "get_duplicated_orders_ids
     [\<lparr>order_id = ''5'', clientId = ''1''\<rparr>, \<lparr>order_id = ''3'', clientId = ''0''\<rparr>,
      \<lparr>order_id = ''4'', clientId = ''1''\<rparr>, \<lparr>order_id = ''2'', clientId = ''0''\<rparr>,
      \<lparr>order_id = ''7'', clientId = ''2''\<rparr>, \<lparr>order_id = ''6'', clientId = ''1''\<rparr>]
   = [''4'', ''5'']"
  using duplicate_scan_keeps_greatest [of
     "[\<lparr>order_id = ''5'', clientId = ''1''\<rparr>, \<lparr>order_id = ''3'', clientId = ''0''\<rparr>,
      \<lparr>order_id = ''4'', clientId = ''1''\<rparr>, \<lparr>order_id = ''2'', clientId = ''0''\<rparr>,
      \<lparr>order_id = ''7'', clientId = ''2''\<rparr>, \<lparr>order_id = ''6'', clientId = ''1''\<rparr>]"]
  by (simp add: get_duplicated_orders_ids_def)

subsection \<open>The reference price\<close>






lemma select_middle:
  assumes "price_strategy cfg = Some MIDDLE" "fetched_ticker_price env = Inr t"
  shows "select_used_price T cfg env bids asks =
           calculate_middle_price T bids asks
             (case middle_price_strategy cfg of None \<Rightarrow> SAP | Some m \<Rightarrow> m)"
  using assms
  by (simp add: select_used_price_def then_do_def Let_def get_market_middle_price_def)



lemma chain_is_attempt_in_order:
  "get_market_middle_price calculate get_market_price None =
     attempt_in_order [calculate VWAP, calculate WAP, calculate SAP] get_market_price"
  by (simp add: get_market_middle_price_def split: sum.splits)

text \<open>
  C3, as the code has it. With the MIDDLE strategy and no middle-price sub-strategy
  configured, the builder takes SAP, the default it gives the absent key, and computes
  the reference price by SAP alone. The chain VWAP, then WAP, then SAP, then the ticker
  price, each failure swallowed before the next attempt, is what the middle price
  routine does when it is called without a strategy.
\<close>

theorem middle_default_is_sap:
  "(price_strategy cfg = Some MIDDLE \<and> middle_price_strategy cfg = None
      \<and> fetched_ticker_price env = Inr t \<longrightarrow>
      select_used_price T cfg env bids asks = calculate_middle_price T bids asks SAP)
   \<and> get_market_middle_price calculate get_market_price None =
       attempt_in_order [calculate VWAP, calculate WAP, calculate SAP] get_market_price"
  using select_middle [of cfg env t T bids asks] chain_is_attempt_in_order
  by simp

theorem middle_default_is_sap_witness:
  "select_used_price 30
     \<lparr>price_strategy = Some MIDDLE, middle_price_strategy = None, layers = []\<rparr>
     (sample_environment [\<lparr>level_price = 10, level_amount = 1\<rparr>]
        [\<lparr>level_price = 12, level_amount = 3\<rparr>] 9)
     [\<lparr>level_price = 10, level_amount = 1\<rparr>] [\<lparr>level_price = 12, level_amount = 3\<rparr>]
     = Inr (Fin 11)
   \<and> get_market_middle_price (\<lambda>s. if s = SAP then Inr (Fin 11) else Inl GatewayError)
       (Inr (Fin 9)) None = Inr (Fin 11)"
  using middle_default_is_sap [where
          cfg = "\<lparr>price_strategy = Some MIDDLE, middle_price_strategy = None, layers = []\<rparr>"
          and env = "sample_environment [\<lparr>level_price = 10, level_amount = 1\<rparr>]
                       [\<lparr>level_price = 12, level_amount = 3\<rparr>] 9"
          and t = 9 and T = 30
          and bids = "[\<lparr>level_price = 10, level_amount = 1\<rparr>]"
          and asks = "[\<lparr>level_price = 12, level_amount = 3\<rparr>]"
          and calculate = "\<lambda>s. if s = SAP then Inr (Fin 11) else Inl GatewayError"
          and get_market_price = "Inr (Fin 9)"]
  by (simp add: sample_environment_def)

text \<open>
  The claim C3 as stated fails: for the book with one bid of 1 at 10 and one ask of 3 at
  12, the MIDDLE strategy without a sub-strategy gives the SAP price 11, while the chain
  gives the VWAP price 23/2.
\<close>

theorem middle_default_not_chain_counterexample:
  "select_used_price 30
     \<lparr>price_strategy = Some MIDDLE, middle_price_strategy = None, layers = []\<rparr>
     (sample_environment [\<lparr>level_price = 10, level_amount = 1\<rparr>]
        [\<lparr>level_price = 12, level_amount = 3\<rparr>] 9)
     [\<lparr>level_price = 10, level_amount = 1\<rparr>] [\<lparr>level_price = 12, level_amount = 3\<rparr>]
     = Inr (Fin 11)
   \<and> get_market_middle_price
       (calculate_middle_price 30 [\<lparr>level_price = 10, level_amount = 1\<rparr>]
          [\<lparr>level_price = 12, level_amount = 3\<rparr>])
       (Inr (Fin 9)) None = Inr (Fin (23 / 2))
   \<and> Inr (Fin 11) \<noteq> (Inr (Fin (23 / 2)) :: error + dec)"
  by code_simp

subsection \<open>The proposal builder\<close>

lemma then_do_Inr:
  "then_do m f = Inr y \<longleftrightarrow> (\<exists>x. m = Inr x \<and> f x = Inr y)"
  by (cases m) (simp_all add: then_do_def)

lemma emit_orders_result:
  "emit_orders n new_order c os = (c + n, os @ map new_order [c ..< c + n])"
proof (induction n arbitrary: c os)
  case 0
  show ?case by simp
next
  case (Suc n)
  have "[c ..< c + Suc n] = c # [Suc c ..< Suc c + n]"
    by (simp add: upt_conv_Cons)
  with Suc [of "c + 1" "os @ [new_order c]"] show ?case by simp
qed

text \<open>What one round of the bid loop does when it does not raise.\<close>

lemma bid_layer_Inr:
  assumes "bid_layer mk name used_price asks i l st = Inr st'"
  shows "\<exists>p s. compute_bid_market_price used_price asks l = Inr p
           \<and> compute_size (bid l) p = Inr s
           \<and> ((dec_lt p (Fin (minimumPriceIncrement mk)) = Inr True
                 \<and> st' = st\<lparr>warnings := warnings st @ [BidPriceTooLow i]\<rparr>)
              \<or> (dec_lt p (Fin (minimumPriceIncrement mk)) = Inr False
                 \<and> dec_lt s (Fin (minimumOrderSize mk)) = Inr True
                 \<and> st' = st\<lparr>warnings := warnings st @ [BidSizeTooLow i]\<rparr>)
              \<or> (dec_lt p (Fin (minimumPriceIncrement mk)) = Inr False
                 \<and> dec_lt s (Fin (minimumOrderSize mk)) = Inr False
                 \<and> st' = st\<lparr>client_id_counter := client_id_counter st + nat (quantity (bid l)),
                             bid_orders := bid_orders st @
                               map (\<lambda>c. \<lparr>client_id = str_nat c, market_name = name,
                                          order_type = LIMIT, side = BUY,
                                          amount = s, price = p\<rparr>)
                                 [client_id_counter st ..<
                                    client_id_counter st + nat (quantity (bid l))]\<rparr>))"
  using assms
  unfolding bid_layer_def emit_orders_result
  by (auto simp: then_do_def split: sum.splits if_splits)

lemma ask_layer_Inr:
  assumes "ask_layer mk name used_price bids i l st = Inr st'"
  shows "\<exists>p s. compute_ask_market_price used_price bids l = Inr p
           \<and> compute_size (ask l) p = Inr s
           \<and> ((dec_lt p (Fin (minimumPriceIncrement mk)) = Inr True
                 \<and> st' = st\<lparr>warnings := warnings st @ [AskPriceTooLow i]\<rparr>)
              \<or> (dec_lt p (Fin (minimumPriceIncrement mk)) = Inr False
                 \<and> dec_lt s (Fin (minimumOrderSize mk)) = Inr True
                 \<and> st' = st\<lparr>warnings := warnings st @ [AskSizeTooLow i]\<rparr>)
              \<or> (dec_lt p (Fin (minimumPriceIncrement mk)) = Inr False
                 \<and> dec_lt s (Fin (minimumOrderSize mk)) = Inr False
                 \<and> st' = st\<lparr>client_id_counter := client_id_counter st + nat (quantity (ask l)),
                             ask_orders := ask_orders st @
                               map (\<lambda>c. \<lparr>client_id = str_nat c, market_name = name,
                                          order_type = LIMIT, side = SELL,
                                          amount = s, price = p\<rparr>)
                                 [client_id_counter st ..<
                                    client_id_counter st + nat (quantity (ask l))]\<rparr>))"
  using assms
  unfolding ask_layer_def emit_orders_result
  by (auto simp: then_do_def split: sum.splits if_splits)

text \<open>
  The state after one round: the orders of the other side are untouched, no warning is
  lost, every new order is one the layer places, and a layer that fails a test leaves
  its warning.
\<close>

lemma bid_layer_effect:
  assumes "bid_layer mk name used_price asks i l st = Inr st'"
  shows "ask_orders st' = ask_orders st"
    and "set (warnings st) \<subseteq> set (warnings st')"
    and "set (bid_orders st) \<subseteq> set (bid_orders st')"
    and "\<forall>x \<in> set (bid_orders st'). x \<in> set (bid_orders st) \<or> placed_bid mk used_price asks l x"
    and "\<exists>p s. compute_bid_market_price used_price asks l = Inr p
           \<and> compute_size (bid l) p = Inr s
           \<and> (dec_lt p (Fin (minimumPriceIncrement mk)) = Inr True \<longrightarrow>
                 BidPriceTooLow i \<in> set (warnings st'))
           \<and> (dec_lt p (Fin (minimumPriceIncrement mk)) = Inr False
                 \<and> dec_lt s (Fin (minimumOrderSize mk)) = Inr True \<longrightarrow>
                 BidSizeTooLow i \<in> set (warnings st'))"
  using bid_layer_Inr [OF assms]
  by (auto simp: placed_bid_def)

lemma ask_layer_effect:
  assumes "ask_layer mk name used_price bids i l st = Inr st'"
  shows "bid_orders st' = bid_orders st"
    and "set (warnings st) \<subseteq> set (warnings st')"
    and "set (ask_orders st) \<subseteq> set (ask_orders st')"
    and "\<forall>x \<in> set (ask_orders st'). x \<in> set (ask_orders st) \<or> placed_ask mk used_price bids l x"
    and "\<exists>p s. compute_ask_market_price used_price bids l = Inr p
           \<and> compute_size (ask l) p = Inr s
           \<and> (dec_lt p (Fin (minimumPriceIncrement mk)) = Inr True \<longrightarrow>
                 AskPriceTooLow i \<in> set (warnings st'))
           \<and> (dec_lt p (Fin (minimumPriceIncrement mk)) = Inr False
                 \<and> dec_lt s (Fin (minimumOrderSize mk)) = Inr True \<longrightarrow>
                 AskSizeTooLow i \<in> set (warnings st'))"
  using ask_layer_Inr [OF assms]
  by (auto simp: placed_ask_def)

text \<open>The loops: the same facts for all layers, by induction on the list of layers.\<close>

lemma bid_loop_effect:
  assumes "bid_loop mk name used_price asks i ls st = Inr st'"
  shows "ask_orders st' = ask_orders st
       \<and> set (warnings st) \<subseteq> set (warnings st')
       \<and> (\<forall>x \<in> set (bid_orders st').
             x \<in> set (bid_orders st) \<or> (\<exists>l \<in> set ls. placed_bid mk used_price asks l x))
       \<and> (\<forall>k < length ls.
             \<exists>p s. compute_bid_market_price used_price asks (ls ! k) = Inr p
               \<and> compute_size (bid (ls ! k)) p = Inr s
               \<and> (dec_lt p (Fin (minimumPriceIncrement mk)) = Inr True \<longrightarrow>
                     BidPriceTooLow (i + k) \<in> set (warnings st'))
               \<and> (dec_lt p (Fin (minimumPriceIncrement mk)) = Inr False
                     \<and> dec_lt s (Fin (minimumOrderSize mk)) = Inr True \<longrightarrow>
                     BidSizeTooLow (i + k) \<in> set (warnings st')))"
  using assms
proof (induction ls arbitrary: i st)
  case Nil
  then show ?case by simp
next
  case (Cons l ls)
  from Cons.prems obtain st1 where
    one: "bid_layer mk name used_price asks i l st = Inr st1"
    and rest: "bid_loop mk name used_price asks (i + 1) ls st1 = Inr st'"
    by (auto simp: then_do_Inr)
  note e = bid_layer_effect [OF one]
  note ih = Cons.IH [OF rest]
  have a: "ask_orders st' = ask_orders st"
    using e(1) ih by simp
  have w: "set (warnings st) \<subseteq> set (warnings st')"
    using e(2) ih by blast
  have o: "\<forall>x \<in> set (bid_orders st').
             x \<in> set (bid_orders st) \<or> (\<exists>l' \<in> set (l # ls). placed_bid mk used_price asks l' x)"
    using e(4) ih by auto
  have k: "\<forall>k < length (l # ls).
             \<exists>p s. compute_bid_market_price used_price asks ((l # ls) ! k) = Inr p
               \<and> compute_size (bid ((l # ls) ! k)) p = Inr s
               \<and> (dec_lt p (Fin (minimumPriceIncrement mk)) = Inr True \<longrightarrow>
                     BidPriceTooLow (i + k) \<in> set (warnings st'))
               \<and> (dec_lt p (Fin (minimumPriceIncrement mk)) = Inr False
                     \<and> dec_lt s (Fin (minimumOrderSize mk)) = Inr True \<longrightarrow>
                     BidSizeTooLow (i + k) \<in> set (warnings st'))"
  proof (intro allI impI)
    fix k assume kl: "k < length (l # ls)"
    show "\<exists>p s. compute_bid_market_price used_price asks ((l # ls) ! k) = Inr p
               \<and> compute_size (bid ((l # ls) ! k)) p = Inr s
               \<and> (dec_lt p (Fin (minimumPriceIncrement mk)) = Inr True \<longrightarrow>
                     BidPriceTooLow (i + k) \<in> set (warnings st'))
               \<and> (dec_lt p (Fin (minimumPriceIncrement mk)) = Inr False
                     \<and> dec_lt s (Fin (minimumOrderSize mk)) = Inr True \<longrightarrow>
                     BidSizeTooLow (i + k) \<in> set (warnings st'))"
    proof (cases k)
      case 0
      have "set (warnings st1) \<subseteq> set (warnings st')" using ih by simp
      with e(5) 0 show ?thesis by auto
    next
      case (Suc j)
      with kl have "j < length ls" by simp
      with ih Suc show ?thesis by simp
    qed
  qed
  from a w o k show ?case by blast
qed

lemma ask_loop_effect:
  assumes "ask_loop mk name used_price bids i ls st = Inr st'"
  shows "bid_orders st' = bid_orders st
       \<and> set (warnings st) \<subseteq> set (warnings st')
       \<and> (\<forall>x \<in> set (ask_orders st').
             x \<in> set (ask_orders st) \<or> (\<exists>l \<in> set ls. placed_ask mk used_price bids l x))
       \<and> (\<forall>k < length ls.
             \<exists>p s. compute_ask_market_price used_price bids (ls ! k) = Inr p
               \<and> compute_size (ask (ls ! k)) p = Inr s
               \<and> (dec_lt p (Fin (minimumPriceIncrement mk)) = Inr True \<longrightarrow>
                     AskPriceTooLow (i + k) \<in> set (warnings st'))
               \<and> (dec_lt p (Fin (minimumPriceIncrement mk)) = Inr False
                     \<and> dec_lt s (Fin (minimumOrderSize mk)) = Inr True \<longrightarrow>
                     AskSizeTooLow (i + k) \<in> set (warnings st')))"
  using assms
proof (induction ls arbitrary: i st)
  case Nil
  then show ?case by simp
next
  case (Cons l ls)
  from Cons.prems obtain st1 where
    one: "ask_layer mk name used_price bids i l st = Inr st1"
    and rest: "ask_loop mk name used_price bids (i + 1) ls st1 = Inr st'"
    by (auto simp: then_do_Inr)
  note e = ask_layer_effect [OF one]
  note ih = Cons.IH [OF rest]
  have a: "bid_orders st' = bid_orders st"
    using e(1) ih by simp
  have w: "set (warnings st) \<subseteq> set (warnings st')"
    using e(2) ih by blast
  have o: "\<forall>x \<in> set (ask_orders st').
             x \<in> set (ask_orders st) \<or> (\<exists>l' \<in> set (l # ls). placed_ask mk used_price bids l' x)"
    using e(4) ih by auto
  have k: "\<forall>k < length (l # ls).
             \<exists>p s. compute_ask_market_price used_price bids ((l # ls) ! k) = Inr p
               \<and> compute_size (ask ((l # ls) ! k)) p = Inr s
               \<and> (dec_lt p (Fin (minimumPriceIncrement mk)) = Inr True \<longrightarrow>
                     AskPriceTooLow (i + k) \<in> set (warnings st'))
               \<and> (dec_lt p (Fin (minimumPriceIncrement mk)) = Inr False
                     \<and> dec_lt s (Fin (minimumOrderSize mk)) = Inr True \<longrightarrow>
                     AskSizeTooLow (i + k) \<in> set (warnings st'))"
  proof (intro allI impI)
    fix k assume kl: "k < length (l # ls)"
    show "\<exists>p s. compute_ask_market_price used_price bids ((l # ls) ! k) = Inr p
               \<and> compute_size (ask ((l # ls) ! k)) p = Inr s
               \<and> (dec_lt p (Fin (minimumPriceIncrement mk)) = Inr True \<longrightarrow>
                     AskPriceTooLow (i + k) \<in> set (warnings st'))
               \<and> (dec_lt p (Fin (minimumPriceIncrement mk)) = Inr False
                     \<and> dec_lt s (Fin (minimumOrderSize mk)) = Inr True \<longrightarrow>
                     AskSizeTooLow (i + k) \<in> set (warnings st'))"
    proof (cases k)
      case 0
      have "set (warnings st1) \<subseteq> set (warnings st')" using ih by simp
      with e(5) 0 show ?thesis by auto
    next
      case (Suc j)
      with kl have "j < length ls" by simp
      with ih Suc show ?thesis by simp
    qed
  qed
  from a w o k show ?case by blast
qed

text \<open>
  A proposal that is returned: every order in it is placed by a layer, on its side, and
  every layer's price and size were computed without an exception.
\<close>

lemma build_layers_Inr:
  assumes "build_layers cfg mk name bids asks used_price = Inr (proposal, ws)"
  shows "\<forall>x \<in> set proposal.
           (\<exists>l \<in> set (layers cfg). placed_bid mk used_price asks l x)
           \<or> (\<exists>l \<in> set (layers cfg). placed_ask mk used_price bids l x)"
    and "\<forall>k < length (layers cfg).
           \<exists>p s. compute_bid_market_price used_price asks (layers cfg ! k) = Inr p
             \<and> compute_size (bid (layers cfg ! k)) p = Inr s
             \<and> (dec_lt p (Fin (minimumPriceIncrement mk)) = Inr True \<longrightarrow>
                   BidPriceTooLow (k + 1) \<in> set ws)
             \<and> (dec_lt p (Fin (minimumPriceIncrement mk)) = Inr False
                   \<and> dec_lt s (Fin (minimumOrderSize mk)) = Inr True \<longrightarrow>
                   BidSizeTooLow (k + 1) \<in> set ws)"
    and "\<forall>k < length (layers cfg).
           \<exists>p s. compute_ask_market_price used_price bids (layers cfg ! k) = Inr p
             \<and> compute_size (ask (layers cfg ! k)) p = Inr s
             \<and> (dec_lt p (Fin (minimumPriceIncrement mk)) = Inr True \<longrightarrow>
                   AskPriceTooLow (k + 1) \<in> set ws)
             \<and> (dec_lt p (Fin (minimumPriceIncrement mk)) = Inr False
                   \<and> dec_lt s (Fin (minimumOrderSize mk)) = Inr True \<longrightarrow>
                   AskSizeTooLow (k + 1) \<in> set ws)"
proof -
  let ?st0 = "\<lparr>client_id_counter = 1, bid_orders = [], ask_orders = [], warnings = []\<rparr>"
  from assms obtain st1 st2 where
    b: "bid_loop mk name used_price asks 1 (layers cfg) ?st0 = Inr st1"
    and a: "ask_loop mk name used_price bids 1 (layers cfg) st1 = Inr st2"
    and p: "proposal = bid_orders st2 @ ask_orders st2" and w: "ws = warnings st2"
    by (auto simp: build_layers_def then_do_Inr)
  note be = bid_loop_effect [OF b]
  note ae = ask_loop_effect [OF a]
  have ao: "ask_orders st1 = []" using be by simp
  show "\<forall>x \<in> set proposal.
           (\<exists>l \<in> set (layers cfg). placed_bid mk used_price asks l x)
           \<or> (\<exists>l \<in> set (layers cfg). placed_ask mk used_price bids l x)"
  proof
    fix x assume "x \<in> set proposal"
    with p have "x \<in> set (bid_orders st2) \<or> x \<in> set (ask_orders st2)" by simp
    then show "(\<exists>l \<in> set (layers cfg). placed_bid mk used_price asks l x)
           \<or> (\<exists>l \<in> set (layers cfg). placed_ask mk used_price bids l x)"
    proof
      assume "x \<in> set (bid_orders st2)"
      with ae have "x \<in> set (bid_orders st1)" by simp
      with be show ?thesis by auto
    next
      assume "x \<in> set (ask_orders st2)"
      with ae ao show ?thesis by auto
    qed
  qed
  show "\<forall>k < length (layers cfg).
           \<exists>p s. compute_bid_market_price used_price asks (layers cfg ! k) = Inr p
             \<and> compute_size (bid (layers cfg ! k)) p = Inr s
             \<and> (dec_lt p (Fin (minimumPriceIncrement mk)) = Inr True \<longrightarrow>
                   BidPriceTooLow (k + 1) \<in> set ws)
             \<and> (dec_lt p (Fin (minimumPriceIncrement mk)) = Inr False
                   \<and> dec_lt s (Fin (minimumOrderSize mk)) = Inr True \<longrightarrow>
                   BidSizeTooLow (k + 1) \<in> set ws)"
  proof (intro allI impI)
    fix k assume "k < length (layers cfg)"
    with be obtain p s where
      "compute_bid_market_price used_price asks (layers cfg ! k) = Inr p"
      "compute_size (bid (layers cfg ! k)) p = Inr s"
      "dec_lt p (Fin (minimumPriceIncrement mk)) = Inr True \<longrightarrow>
          BidPriceTooLow (1 + k) \<in> set (warnings st1)"
      "dec_lt p (Fin (minimumPriceIncrement mk)) = Inr False
          \<and> dec_lt s (Fin (minimumOrderSize mk)) = Inr True \<longrightarrow>
          BidSizeTooLow (1 + k) \<in> set (warnings st1)"
      by blast
    moreover have "set (warnings st1) \<subseteq> set ws" using ae w by simp
    ultimately show "\<exists>p s. compute_bid_market_price used_price asks (layers cfg ! k) = Inr p
             \<and> compute_size (bid (layers cfg ! k)) p = Inr s
             \<and> (dec_lt p (Fin (minimumPriceIncrement mk)) = Inr True \<longrightarrow>
                   BidPriceTooLow (k + 1) \<in> set ws)
             \<and> (dec_lt p (Fin (minimumPriceIncrement mk)) = Inr False
                   \<and> dec_lt s (Fin (minimumOrderSize mk)) = Inr True \<longrightarrow>
                   BidSizeTooLow (k + 1) \<in> set ws)"
      by (auto simp: add.commute)
  qed
  show "\<forall>k < length (layers cfg).
           \<exists>p s. compute_ask_market_price used_price bids (layers cfg ! k) = Inr p
             \<and> compute_size (ask (layers cfg ! k)) p = Inr s
             \<and> (dec_lt p (Fin (minimumPriceIncrement mk)) = Inr True \<longrightarrow>
                   AskPriceTooLow (k + 1) \<in> set ws)
             \<and> (dec_lt p (Fin (minimumPriceIncrement mk)) = Inr False
                   \<and> dec_lt s (Fin (minimumOrderSize mk)) = Inr True \<longrightarrow>
                   AskSizeTooLow (k + 1) \<in> set ws)"
    using ae w by (simp add: add.commute)
qed

text \<open>What the whole builder has done when it returns a proposal.\<close>

lemma create_proposal_Inr:
  assumes "create_proposal T cfg mk name env = Inr r"
  shows "\<exists>book u used_price.
           fetched_order_book env = Inr book
           \<and> check_price (Some u) = Inr used_price
           \<and> build_layers cfg mk name (fst (parse_order_book book))
                (snd (parse_order_book book)) used_price = Inr r"
  using assms
  by (auto simp: create_proposal_def then_do_Inr case_prod_beta Let_def)

lemma check_price_Inr:
  assumes "check_price (Some u) = Inr used_price"
  shows "used_price = PInf \<or> (\<exists>p. used_price = Fin p \<and> 0 < p)"
  using assms
  by (cases u) (auto simp: check_price_def then_do_def dec_le_def DECIMAL_ZERO_def
      split: if_splits)






lemma sample_run_layers:
  "build_layers
     (sample_configuration [sample_layer 2 50 100, sample_layer 12 5 1])
     sample_market ''KUJI/USK'' [sample_level 10 1] [sample_level 12 1] (Fin 11)
   = Inr ([sample_placed 1 BUY (100 / 11) (11 / 2), sample_placed 2 BUY (100 / 11) (11 / 2),
           sample_placed 3 SELL (100 / 33) (33 / 2), sample_placed 4 SELL (100 / 33) (33 / 2)],
          [BidSizeTooLow 2, AskSizeTooLow 2])"
  by code_simp


text \<open>A layer whose price is zero: the size cannot be computed.\<close>

lemma compute_size_zero_price:
  "0 < quantity sd \<Longrightarrow>
     compute_size sd (Fin 0) =
       Inl (if max_liquidity_in_dollars sd = 0 then InvalidOperation else DivisionByZero)"
  by (simp add: compute_size_def then_do_def)

lemma bid_layer_zero_price:
  assumes "0 < quantity (bid l)" "compute_bid_market_price used_price asks l = Inr (Fin 0)"
  shows "bid_layer mk name used_price asks i l st =
           Inl (if max_liquidity_in_dollars (bid l) = 0 then InvalidOperation
                else DivisionByZero)"
  using assms compute_size_zero_price [of "bid l"]
  by (simp add: bid_layer_def then_do_def)

lemma ask_layer_zero_price:
  assumes "0 < quantity (ask l)" "compute_ask_market_price used_price bids l = Inr (Fin 0)"
  shows "ask_layer mk name used_price bids i l st =
           Inl (if max_liquidity_in_dollars (ask l) = 0 then InvalidOperation
                else DivisionByZero)"
  using assms compute_size_zero_price [of "ask l"]
  by (simp add: ask_layer_def then_do_def)

lemma build_layers_nonzero_prices:
  assumes "build_layers cfg mk name bids asks used_price = Inr r" "l \<in> set (layers cfg)"
  shows "0 < quantity (bid l) \<longrightarrow> compute_bid_market_price used_price asks l \<noteq> Inr (Fin 0)"
    and "0 < quantity (ask l) \<longrightarrow> compute_ask_market_price used_price bids l \<noteq> Inr (Fin 0)"
proof -
  obtain proposal ws where r: "r = (proposal, ws)" by (cases r)
  from assms(2) obtain k where k: "k < length (layers cfg)" "layers cfg ! k = l"
    by (auto simp: in_set_conv_nth)
  from build_layers_Inr(2) [OF assms(1) [unfolded r]] k
  obtain p s where "compute_bid_market_price used_price asks l = Inr p"
    "compute_size (bid l) p = Inr s" by blast
  then show "0 < quantity (bid l) \<longrightarrow> compute_bid_market_price used_price asks l \<noteq> Inr (Fin 0)"
    using compute_size_zero_price [of "bid l"] by auto
  from build_layers_Inr(3) [OF assms(1) [unfolded r]] k
  obtain p s where "compute_ask_market_price used_price bids l = Inr p"
    "compute_size (ask l) p = Inr s" by blast
  then show "0 < quantity (ask l) \<longrightarrow> compute_ask_market_price used_price bids l \<noteq> Inr (Fin 0)"
    using compute_size_zero_price [of "ask l"] by auto
qed

lemma bid_price_full_spread:
  assumes "spread_percentage (bid l) = 100" "used_price = PInf \<or> (\<exists>p. used_price = Fin p)"
  shows "compute_bid_market_price used_price (a # rest) l = Inr (Fin 0)"
  using assms
  by (auto simp: compute_bid_market_price_def then_do_def py_min_def)

lemma not_Inr_is_Inl:
  "(\<And>r. m \<noteq> Inr r) \<Longrightarrow> \<exists>e. m = Inl e"
  by (cases m) auto

text \<open>
  C10. The size of a layer side is the liquidity divided by the computed price with no
  test of the divisor. For a layer of positive quantity whose computed price is 0 the
  division raises (a division by zero, or an invalid operation when the liquidity is 0
  too), so the round of the loop raises and so does the builder, instead of placing or
  skipping the orders; a bid spread percentage of 100 is such a case, whatever the
  market and the configuration. A proposal is returned only if the computed price of
  every layer side of positive quantity is not 0.
\<close>

theorem zero_price_layer_raises:
  "(0 < quantity (bid l) \<and> compute_bid_market_price used_price asks l = Inr (Fin 0) \<longrightarrow>
      bid_layer mk name used_price asks i l st =
        Inl (if max_liquidity_in_dollars (bid l) = 0 then InvalidOperation else DivisionByZero)
      \<and> (l \<in> set (layers cfg) \<longrightarrow>
           (\<exists>e. build_layers cfg mk name bids asks used_price = Inl e)))
   \<and> (0 < quantity (ask l) \<and> compute_ask_market_price used_price bids l = Inr (Fin 0) \<longrightarrow>
      ask_layer mk name used_price bids i l st =
        Inl (if max_liquidity_in_dollars (ask l) = 0 then InvalidOperation else DivisionByZero)
      \<and> (l \<in> set (layers cfg) \<longrightarrow>
           (\<exists>e. build_layers cfg mk name bids asks used_price = Inl e)))
   \<and> (l \<in> set (layers cfg) \<and> 0 < quantity (bid l) \<and> spread_percentage (bid l) = 100 \<longrightarrow>
        (\<exists>e. create_proposal T cfg mk name env = Inl e))
   \<and> (build_layers cfg mk name bids asks used_price = Inr r \<longrightarrow>
        (\<forall>l' \<in> set (layers cfg).
           (0 < quantity (bid l') \<longrightarrow>
              compute_bid_market_price used_price asks l' \<noteq> Inr (Fin 0))
           \<and> (0 < quantity (ask l') \<longrightarrow>
              compute_ask_market_price used_price bids l' \<noteq> Inr (Fin 0))))"
proof (intro conjI impI)
  assume a: "0 < quantity (bid l) \<and> compute_bid_market_price used_price asks l = Inr (Fin 0)"
  then show "bid_layer mk name used_price asks i l st =
        Inl (if max_liquidity_in_dollars (bid l) = 0 then InvalidOperation else DivisionByZero)"
    by (simp add: bid_layer_zero_price)
  assume "l \<in> set (layers cfg)"
  with a build_layers_nonzero_prices(1) [of cfg mk name bids asks used_price _ l]
  show "\<exists>e. build_layers cfg mk name bids asks used_price = Inl e"
    by (intro not_Inr_is_Inl) auto
next
  assume a: "0 < quantity (ask l) \<and> compute_ask_market_price used_price bids l = Inr (Fin 0)"
  then show "ask_layer mk name used_price bids i l st =
        Inl (if max_liquidity_in_dollars (ask l) = 0 then InvalidOperation else DivisionByZero)"
    by (simp add: ask_layer_zero_price)
  assume "l \<in> set (layers cfg)"
  with a build_layers_nonzero_prices(2) [of cfg mk name bids asks used_price _ l]
  show "\<exists>e. build_layers cfg mk name bids asks used_price = Inl e"
    by (intro not_Inr_is_Inl) auto
next
  assume a: "l \<in> set (layers cfg) \<and> 0 < quantity (bid l) \<and> spread_percentage (bid l) = 100"
  show "\<exists>e. create_proposal T cfg mk name env = Inl e"
  proof (rule not_Inr_is_Inl)
    fix r
    show "create_proposal T cfg mk name env \<noteq> Inr r"
    proof
      assume "create_proposal T cfg mk name env = Inr r"
      from create_proposal_Inr [OF this] obtain book u used where
        c: "check_price (Some u) = Inr used"
        and b: "build_layers cfg mk name (fst (parse_order_book book))
                  (snd (parse_order_book book)) used = Inr r"
        by blast
      from check_price_Inr [OF c] have u: "used = PInf \<or> (\<exists>p. used = Fin p)" by auto
      obtain proposal ws where r: "r = (proposal, ws)" by (cases r)
      from a obtain k where k: "k < length (layers cfg)" "layers cfg ! k = l"
        by (auto simp: in_set_conv_nth)
      from build_layers_Inr(2) [OF b [unfolded r]] k obtain p s where
        ps: "compute_bid_market_price used (snd (parse_order_book book)) l = Inr p"
          "compute_size (bid l) p = Inr s" by blast
      have "p = Fin 0"
      proof (cases "snd (parse_order_book book)")
        case Nil
        with ps(1) show ?thesis by (simp add: compute_bid_market_price_def)
      next
        case (Cons x rest)
        with ps(1) bid_price_full_spread [of l used x rest] a u show ?thesis by simp
      qed
      with ps(2) a compute_size_zero_price [of "bid l"] show False by simp
    qed
  qed
next
  assume "build_layers cfg mk name bids asks used_price = Inr r"
  from build_layers_nonzero_prices [OF this]
  show "\<forall>l' \<in> set (layers cfg).
           (0 < quantity (bid l') \<longrightarrow>
              compute_bid_market_price used_price asks l' \<noteq> Inr (Fin 0))
           \<and> (0 < quantity (ask l') \<longrightarrow>
              compute_ask_market_price used_price bids l' \<noteq> Inr (Fin 0))"
    by blast
qed

lemma sample_run_full_spread:
  "create_proposal 30
     (sample_configuration [sample_layer 2 100 100, sample_layer 12 5 1])
     sample_market ''KUJI/USK''
     (sample_environment [sample_level 10 1] [sample_level 12 1] 11)
   = Inl DivisionByZero"
  by code_simp

theorem zero_price_layer_raises_witness:
  "create_proposal 30
     (sample_configuration [sample_layer 2 100 100, sample_layer 12 5 1])
     sample_market ''KUJI/USK''
     (sample_environment [sample_level 10 1] [sample_level 12 1] 11)
   = Inl DivisionByZero
   \<and> compute_bid_market_price (Fin 11) [sample_level 12 1] (sample_layer 2 100 100)
       = Inr (Fin 0)
   \<and> bid_layer sample_market ''KUJI/USK'' (Fin 11) [sample_level 12 1] 1
       (sample_layer 2 100 100)
       \<lparr>client_id_counter = 1, bid_orders = [], ask_orders = [], warnings = []\<rparr>
       = Inl DivisionByZero
   \<and> compute_ask_market_price (Fin 11) [sample_level 10 1] (sample_layer 1 (- 100) 0)
       = Inr (Fin 0)
   \<and> ask_layer sample_market ''KUJI/USK'' (Fin 11) [sample_level 10 1] 1
       (sample_layer 1 (- 100) 0)
       \<lparr>client_id_counter = 1, bid_orders = [], ask_orders = [], warnings = []\<rparr>
       = Inl InvalidOperation
   \<and> compute_bid_market_price (Fin 11) [sample_level 12 1] (sample_layer 2 50 100)
       \<noteq> Inr (Fin 0)"
  using zero_price_layer_raises [where T = 30
          and cfg = "sample_configuration [sample_layer 2 100 100, sample_layer 12 5 1]"
          and mk = sample_market and name = "''KUJI/USK''"
          and env = "sample_environment [sample_level 10 1] [sample_level 12 1] 11"
          and l = "sample_layer 2 100 100"
          and used_price = "Fin 11" and asks = "[sample_level 12 1]"
          and bids = "[sample_level 10 1]" and i = 1
          and st = "\<lparr>client_id_counter = 1, bid_orders = [], ask_orders = [], warnings = []\<rparr>"]
    zero_price_layer_raises [where
          cfg = "sample_configuration [sample_layer 2 50 100, sample_layer 12 5 1]"
          and mk = sample_market and name = "''KUJI/USK''"
          and l = "sample_layer 1 (- 100) 0"
          and used_price = "Fin 11" and asks = "[sample_level 12 1]"
          and bids = "[sample_level 10 1]" and i = 1
          and st = "\<lparr>client_id_counter = 1, bid_orders = [], ask_orders = [], warnings = []\<rparr>"
          and r = "([sample_placed 1 BUY (100 / 11) (11 / 2),
             sample_placed 2 BUY (100 / 11) (11 / 2),
             sample_placed 3 SELL (100 / 33) (33 / 2),
             sample_placed 4 SELL (100 / 33) (33 / 2)],
            [BidSizeTooLow 2, AskSizeTooLow 2])"]
    sample_run_full_spread sample_run_layers
  by (simp add: sample_configuration_def sample_layer_def sample_level_def
        compute_bid_market_price_def compute_ask_market_price_def then_do_def
        py_min_def py_max_def dec_gt_def)





text \<open>
  With an empty side of the book and at least one layer the builder raises: the default
  of \<^verbatim>\<open>next\<close> is a plain dictionary and the read of its \<^verbatim>\<open>price\<close> attribute fails, so
  the infinite best ask and the zero best bid that the defaults hold are never used.
\<close>

lemma empty_side_raises:
  "build_layers (sample_configuration [sample_layer 1 10 100]) sample_market ''KUJI/USK''
     [sample_level 10 1] [] (Fin 11) = Inl AttributeError"
  "build_layers (sample_configuration [sample_layer 1 10 100]) sample_market ''KUJI/USK''
     [] [sample_level 12 1] (Fin 11) = Inl AttributeError"
  by code_simp+




end
